theory Spec2Isabelle
  imports Complex_Main "HOL-Library.Sublist"
begin

section \<open>Values, exceptions and the outside world\<close>

text \<open>
  The program is one Python module, \<^verbatim>\<open>main.py\<close>, with two functions:
  \<^verbatim>\<open>get_video_properties\<close> runs a probing process and reads fields out of the
  JSON document it prints, and \<^verbatim>\<open>convert_video_to_requirements\<close> builds the
  argument list of a transcoding process and runs it.

  A Python exception is a value of \<open>py_error\<close>; a function that may raise returns
  \<open>py_error + 'a\<close>, with \<open>Inl\<close> the exception. A \<open>KeyError\<close> carries the key that
  was missing; a \<open>RuntimeError\<close>, a \<open>RecursionError\<close> (a subclass of
  \<^verbatim>\<open>RuntimeError\<close>) and a \<open>CalledProcessError\<close> carry the text that \<^verbatim>\<open>str(err)\<close>
  gives. \<open>UnicodeDecodeError\<close> is a subclass of \<^verbatim>\<open>ValueError\<close>, and
  \<open>FileNotFoundError\<close> and \<open>PermissionError\<close> are subclasses of \<^verbatim>\<open>OSError\<close>.
\<close>

datatype py_key = KStr string | KInt int

datatype py_error =
    JSONDecodeError
  | KeyError py_key
  | IndexError
  | ValueError
  | TypeError
  | AttributeError
  | ZeroDivisionError
  | OverflowError
  | FileNotFoundError
  | PermissionError
  | UnicodeDecodeError
  | RuntimeError string
  | RecursionError string
  | CalledProcessError string

text \<open>
  A Python float is a binary64 value: a finite one is \<open>Float q\<close> with \<open>q\<close> the rational
  it stands for (\<open>Float 0\<close> is \<^verbatim>\<open>0.0\<close>), and \<^verbatim>\<open>-0.0\<close>, the two infinities and
  \<^verbatim>\<open>nan\<close> are values of their own.
\<close>

datatype py_float = Float rat | NegZero | PosInf | NegInf | NaN

text \<open>
  What \<^verbatim>\<open>json.loads\<close> returns: \<^verbatim>\<open>None\<close>, a bool, an int, a float, a str, a list
  or a dict with string keys. A dict is an association list read with \<open>map_of\<close>.
\<close>

datatype json =
    JNull
  | JBool bool
  | JInt int
  | JFloat py_float
  | JString string
  | JArray "json list"
  | JObject "(string \<times> json) list"

text \<open>The \<^verbatim>\<open>CompletedProcess\<close> that \<^verbatim>\<open>subprocess.run\<close> returns, with text streams.\<close>

record completed_process =
  returncode :: int
  stdout :: string
  stderr :: string

text \<open>
  What the module calls and this theory does not define is a field of the environment:
  \<^item> \<open>run\<close> is \<^verbatim>\<open>subprocess.run(command, stdout=PIPE, stderr=PIPE,
    universal_newlines=True)\<close>: it raises (the executable cannot be started, the
    captured output cannot be decoded), or returns a completed process;
  \<^item> \<open>json_loads\<close> is \<^verbatim>\<open>json.loads\<close>: it raises (\<^verbatim>\<open>JSONDecodeError\<close> on a text
    it cannot read, \<^verbatim>\<open>RecursionError\<close> on one nested too deeply), or returns a value;
  \<^item> \<open>float_of_str\<close> is \<^verbatim>\<open>float(s)\<close> on a str, with \<open>None\<close> for \<^verbatim>\<open>ValueError\<close>.
  \<^verbatim>\<open>print\<close> is taken to succeed.
\<close>

record py_env =
  run :: "string list \<Rightarrow> py_error + completed_process"
  json_loads :: "string \<Rightarrow> py_error + json"
  float_of_str :: "string \<Rightarrow> py_float option"

text \<open>Sequencing of steps that may raise: the first exception ends the run.\<close>

definition and_then :: "'e + 'a \<Rightarrow> ('a \<Rightarrow> 'e + 'b) \<Rightarrow> 'e + 'b" where
  "and_then r f = (case r of Inl e \<Rightarrow> Inl e | Inr x \<Rightarrow> f x)"

definition or_raise :: "'a option \<Rightarrow> 'e \<Rightarrow> 'e + 'a" where
  "or_raise r e = (case r of None \<Rightarrow> Inl e | Some x \<Rightarrow> Inr x)"

section \<open>Built-in operations of Python that the module uses\<close>

text \<open>
  A str is a \<open>string\<close>, one \<open>char\<close> for each code point below 256.
  \<^verbatim>\<open>s.split(sep)\<close> with a separator of one character cuts at every occurrence and
  always returns at least one piece.
\<close>

fun str_split :: "char \<Rightarrow> string \<Rightarrow> string list" where
  "str_split sep [] = [[]]"
| "str_split sep (c # cs) =
     (if c = sep then [] # str_split sep cs
      else (case str_split sep cs of
              [] \<Rightarrow> [[c]]
            | p # ps \<Rightarrow> (c # p) # ps))"

text \<open>
  \<^verbatim>\<open>int(s)\<close> on a str, base 10: white space around the literal is dropped, one sign may
  come first, and the digits may be grouped by single underscores that stand between two
  digits. Among the code points below 256 the white space of \<^verbatim>\<open>int\<close> is 9 to 13, 32, 133
  and 160, and the decimal digits are \<^verbatim>\<open>0\<close> to \<^verbatim>\<open>9\<close>. The interpreter's configurable cap on
  the number of digits of a literal is left out.
\<close>

definition is_space :: "char \<Rightarrow> bool" where
  "is_space c = ((of_char c :: nat) \<in> {9, 10, 11, 12, 13, 32, 133, 160})"

definition is_digit :: "char \<Rightarrow> bool" where
  "is_digit c = (48 \<le> (of_char c :: nat) \<and> (of_char c :: nat) \<le> 57)"

definition digit_value :: "char \<Rightarrow> int" where
  "digit_value c = int (of_char c) - 48"

fun scan_digits :: "int \<Rightarrow> bool \<Rightarrow> string \<Rightarrow> int option" where
  "scan_digits acc prev_us [] = (if prev_us then None else Some acc)"
| "scan_digits acc prev_us (c # cs) =
     (if c = CHR ''_'' then (if prev_us then None else scan_digits acc True cs)
      else if is_digit c then scan_digits (acc * 10 + digit_value c) False cs
      else None)"

definition int_literal :: "string \<Rightarrow> int option" where
  "int_literal s =
     (case s of
        [] \<Rightarrow> None
      | c # cs \<Rightarrow> if is_digit c then scan_digits (digit_value c) False cs else None)"

definition py_int_str :: "string \<Rightarrow> py_error + int" where
  "py_int_str s =
     (let t = dropWhile is_space s;
          negative = (case t of [] \<Rightarrow> False | c # _ \<Rightarrow> c = CHR ''-'');
          u = (case t of [] \<Rightarrow> [] | c # cs \<Rightarrow> if c = CHR ''+'' \<or> c = CHR ''-'' then cs else t);
          v = rev (dropWhile is_space (rev u))
      in case int_literal v of
           None \<Rightarrow> Inl ValueError
         | Some n \<Rightarrow> Inr (if negative then - n else n))"

text \<open>
  Division in Python yields the binary64 value nearest to the quotient, ties going to the
  even significand. For a positive quotient \<open>a / b\<close> of two positive integers,
  \<open>round_quotient a b\<close> is that value as a rational: the quotient lies in
  \<open>[2^e, 2^(e+1))\<close>, the spacing of the binary64 values there is \<open>2^(e - 52)\<close>, or
  \<open>2^(-1074)\<close> below the normal range, and the quotient is rounded to a multiple of the
  spacing. A result of \<open>2^1024\<close> or more is beyond the largest binary64 value.
\<close>

fun bit_length :: "nat \<Rightarrow> nat" where
  "bit_length n = (if n = 0 then 0 else Suc (bit_length (n div 2)))"

definition pow2 :: "int \<Rightarrow> rat" where
  "pow2 k = (if 0 \<le> k then 2 ^ nat k else 1 / 2 ^ nat (- k))"

definition round_half_even :: "rat \<Rightarrow> int" where
  "round_half_even x =
     (let f = \<lfloor>x\<rfloor>; d = x - of_int f
      in if d < 1 / 2 then f
         else if 1 / 2 < d then f + 1
         else if even f then f else f + 1)"

definition round_quotient :: "nat \<Rightarrow> nat \<Rightarrow> rat" where
  "round_quotient a b =
     (let q = of_nat a / of_nat b;
          d = int (bit_length a) - int (bit_length b);
          e = (if pow2 d \<le> q then d else d - 1);
          p = max e (- 1022) - 52
      in of_int (round_half_even (q / pow2 p)) * pow2 p)"

definition round_binary64 :: "rat \<Rightarrow> rat" where
  "round_binary64 q = (case quotient_of q of (a, b) \<Rightarrow> round_quotient (nat a) (nat b))"

text \<open>
  \<^verbatim>\<open>a / b\<close> on two ints: \<^verbatim>\<open>ZeroDivisionError\<close> on a zero divisor, \<^verbatim>\<open>OverflowError\<close>
  when the rounded quotient is beyond the largest float, a zero that carries the sign when
  the quotient rounds to zero.
\<close>

definition int_truediv :: "int \<Rightarrow> int \<Rightarrow> py_error + py_float" where
  "int_truediv a b =
     (if b = 0 then Inl ZeroDivisionError
      else
        let negative = ((a < 0) \<noteq> (b < 0));
            r = (if a = 0 then 0 else round_quotient (nat \<bar>a\<bar>) (nat \<bar>b\<bar>))
        in if 2 ^ 1024 \<le> r then Inl OverflowError
           else if r = 0 then Inr (if negative then NegZero else Float 0)
           else Inr (Float (if negative then - r else r)))"

text \<open>
  \<^verbatim>\<open>x / y\<close> on two floats: \<^verbatim>\<open>ZeroDivisionError\<close> on a zero divisor of either sign,
  and the binary64 division otherwise, which overflows to an infinity without raising.
\<close>

fun is_negative :: "py_float \<Rightarrow> bool" where
  "is_negative (Float q) = (q < 0)"
| "is_negative NegZero = True"
| "is_negative NegInf = True"
| "is_negative _ = False"

fun is_zero :: "py_float \<Rightarrow> bool" where
  "is_zero (Float q) = (q = 0)"
| "is_zero NegZero = True"
| "is_zero _ = False"

fun is_infinite :: "py_float \<Rightarrow> bool" where
  "is_infinite PosInf = True"
| "is_infinite NegInf = True"
| "is_infinite _ = False"

fun magnitude :: "py_float \<Rightarrow> rat" where
  "magnitude (Float q) = \<bar>q\<bar>"
| "magnitude _ = 0"

definition float_truediv :: "py_float \<Rightarrow> py_float \<Rightarrow> py_error + py_float" where
  "float_truediv x y =
     (if is_zero y then Inl ZeroDivisionError
      else if x = NaN \<or> y = NaN then Inr NaN
      else
        let negative = (is_negative x \<noteq> is_negative y)
        in if is_infinite x
           then Inr (if is_infinite y then NaN else if negative then NegInf else PosInf)
           else if is_infinite y \<or> is_zero x
           then Inr (if negative then NegZero else Float 0)
           else
             let r = round_binary64 (magnitude x / magnitude y)
             in if 2 ^ 1024 \<le> r then Inr (if negative then NegInf else PosInf)
                else if r = 0 then Inr (if negative then NegZero else Float 0)
                else Inr (Float (if negative then - r else r)))"

text \<open>\<^verbatim>\<open>int(x)\<close> on a float: the value with its fraction cut off.\<close>

fun int_of_float :: "py_float \<Rightarrow> py_error + int" where
  "int_of_float (Float q) = Inr (if q < 0 then - \<lfloor>- q\<rfloor> else \<lfloor>q\<rfloor>)"
| "int_of_float NegZero = Inr 0"
| "int_of_float NaN = Inl ValueError"
| "int_of_float _ = Inl OverflowError"

text \<open>\<^verbatim>\<open>int(x)\<close> on a value read from JSON.\<close>

definition py_int :: "json \<Rightarrow> py_error + int" where
  "py_int x =
     (case x of
        JInt n \<Rightarrow> Inr n
      | JBool b \<Rightarrow> Inr (if b then 1 else 0)
      | JFloat f \<Rightarrow> int_of_float f
      | JString s \<Rightarrow> py_int_str s
      | _ \<Rightarrow> Inl TypeError)"

text \<open>\<^verbatim>\<open>x[key]\<close> with a str key: only a dict can be read that way.\<close>

definition getitem_str :: "json \<Rightarrow> string \<Rightarrow> py_error + json" where
  "getitem_str x key =
     (case x of
        JObject kvs \<Rightarrow> or_raise (map_of kvs key) (KeyError (KStr key))
      | _ \<Rightarrow> Inl TypeError)"

text \<open>
  \<^verbatim>\<open>x[0]\<close>: the first element of a list, the first character of a str, a
  \<^verbatim>\<open>KeyError\<close> on a dict (its keys are strings), a \<^verbatim>\<open>TypeError\<close> on the rest.
\<close>

definition getitem_0 :: "json \<Rightarrow> py_error + json" where
  "getitem_0 x =
     (case x of
        JArray xs \<Rightarrow> (case xs of [] \<Rightarrow> Inl IndexError | y # _ \<Rightarrow> Inr y)
      | JString s \<Rightarrow> (case s of [] \<Rightarrow> Inl IndexError | c # _ \<Rightarrow> Inr (JString [c]))
      | JObject kvs \<Rightarrow> Inl (KeyError (KInt 0))
      | _ \<Rightarrow> Inl TypeError)"

text \<open>\<^verbatim>\<open>xs[1]\<close> on a list of strings.\<close>

definition index_1 :: "'a list \<Rightarrow> py_error + 'a" where
  "index_1 xs = (case xs of _ # y # _ \<Rightarrow> Inr y | _ \<Rightarrow> Inl IndexError)"

text \<open>\<^verbatim>\<open>x.split(sep)\<close>: only a str has the method.\<close>

definition split_method :: "json \<Rightarrow> char \<Rightarrow> py_error + string list" where
  "split_method x sep =
     (case x of JString s \<Rightarrow> Inr (str_split sep s) | _ \<Rightarrow> Inl AttributeError)"

text \<open>\<^verbatim>\<open>d.get(key, default)\<close> on a dict.\<close>

definition dict_get :: "(string \<times> json) list \<Rightarrow> string \<Rightarrow> json \<Rightarrow> json" where
  "dict_get kvs key dflt = (case map_of kvs key of None \<Rightarrow> dflt | Some v \<Rightarrow> v)"

text \<open>
  \<^verbatim>\<open>key in x\<close> with a str on the left: a key test on a dict, a substring test on a
  str, a membership test on a list, a \<^verbatim>\<open>TypeError\<close> on the rest.
\<close>

definition contains_str :: "json \<Rightarrow> string \<Rightarrow> py_error + bool" where
  "contains_str x key =
     (case x of
        JObject kvs \<Rightarrow> Inr (map_of kvs key \<noteq> None)
      | JString s \<Rightarrow> Inr (sublist key s)
      | JArray xs \<Rightarrow> Inr (JString key \<in> set xs)
      | _ \<Rightarrow> Inl TypeError)"

section \<open>The property extractor\<close>

record video_properties =
  format_name :: "json"
  format_level :: "json"
  codec_name :: "json"
  format_profile :: "json"
  width :: int
  height :: int
  bit_rate :: int
  frame_rate :: py_float
  display_aspect_ratio :: py_float
  color_space :: "json"
  chroma_subsampling :: "json"
  bit_depth :: int
  scan_type :: string
  scan_order :: string
  gop_m :: int
  gop_n :: int

definition ffprobe_command :: "string \<Rightarrow> string list" where
  "ffprobe_command video_path =
     [''ffprobe'',
      ''-v'', ''error'',
      ''-select_streams'', ''v:0'',
      ''-show_entries'', ''stream'',
      ''-of'', ''json'',
      video_path]"

text \<open>Line 37: \<^verbatim>\<open>video_info['streams'][0]\<close>.\<close>

definition select_stream :: "json \<Rightarrow> py_error + json" where
  "select_stream video_info = and_then (getitem_str video_info ''streams'') getitem_0"

text \<open>
  Lines 40 and 41. Unpacking the \<^verbatim>\<open>map\<close> object into two names calls \<^verbatim>\<open>int\<close> on
  the pieces from left to right and raises \<^verbatim>\<open>ValueError\<close> when there are fewer or more
  than two of them, as \<^verbatim>\<open>int\<close> does on a piece that is no literal.
\<close>

definition unpack_two_ints :: "string list \<Rightarrow> py_error + int \<times> int" where
  "unpack_two_ints parts =
     (case parts of
        [a, b] \<Rightarrow> and_then (py_int_str a) (\<lambda>n. and_then (py_int_str b) (\<lambda>d. Inr (n, d)))
      | _ \<Rightarrow> Inl ValueError)"

definition derive_frame_rate :: "json \<Rightarrow> py_error + py_float" where
  "derive_frame_rate video_stream =
     and_then (getitem_str video_stream ''r_frame_rate'') (\<lambda>field.
     and_then (split_method field CHR ''/'') (\<lambda>parts.
     and_then (unpack_two_ints parts) (\<lambda>(frame_rate_num, frame_rate_den).
       int_truediv frame_rate_num frame_rate_den)))"

text \<open>Line 44: the left operand is evaluated whole before the right one.\<close>

definition derive_display_aspect_ratio :: "py_env \<Rightarrow> json \<Rightarrow> py_error + py_float" where
  "derive_display_aspect_ratio env video_stream =
     and_then (getitem_str video_stream ''display_aspect_ratio'') (\<lambda>field.
     and_then (split_method field CHR '':'') (\<lambda>parts.
     and_then (or_raise (float_of_str env (hd parts)) ValueError) (\<lambda>w.
     and_then (index_1 parts) (\<lambda>p.
     and_then (or_raise (float_of_str env p) ValueError) (\<lambda>h.
       float_truediv w h)))))"

text \<open>Lines 47 to 51.\<close>

definition gop_value :: "string \<Rightarrow> py_error + int" where
  "gop_value token = and_then (index_1 (str_split CHR ''='' token)) py_int_str"

definition extract_gop :: "(string \<times> json) list \<Rightarrow> py_error + int \<times> int" where
  "extract_gop video_stream =
     (case map_of video_stream ''tags'' of
        None \<Rightarrow> Inr (0, 0)
      | Some tags \<Rightarrow>
          and_then (contains_str tags ''gop_size'') (\<lambda>present.
            if \<not> present then Inr (0, 0)
            else
              and_then (getitem_str tags ''gop_size'') (\<lambda>field.
              and_then (split_method field CHR '','') (\<lambda>gop_info.
              and_then (gop_value (hd gop_info)) (\<lambda>gop_m.
              and_then (index_1 gop_info) (\<lambda>second.
              and_then (gop_value second) (\<lambda>gop_n.
                Inr (gop_m, gop_n))))))))"

text \<open>Lines 66 and 67.\<close>

definition derive_scan_type :: "(string \<times> json) list \<Rightarrow> string" where
  "derive_scan_type video_stream =
     (if dict_get video_stream ''field_order'' (JString ''progressive'') \<noteq> JString ''progressive''
      then ''interlaced'' else ''progressive'')"

definition derive_scan_order :: "(string \<times> json) list \<Rightarrow> string" where
  "derive_scan_order video_stream =
     (if dict_get video_stream ''field_order'' (JString ''bb'') = JString ''tt'' then ''TFF''
      else if dict_get video_stream ''field_order'' (JString ''tt'') = JString ''bb'' then ''BFF''
      else ''Progressive'')"

text \<open>
  Lines 53 to 71: the entries of the dict display are evaluated in the order they are
  written, so the first one that raises decides the exception.
\<close>

definition assemble :: "(string \<times> json) list \<Rightarrow> py_float \<Rightarrow> py_float \<Rightarrow> int \<times> int \<Rightarrow>
    py_error + video_properties" where
  "assemble vs fr dar gop =
     and_then (getitem_str (JObject vs) ''codec_name'') (\<lambda>v_format_name.
     and_then (getitem_str (JObject vs) ''level'') (\<lambda>v_level.
     and_then (getitem_str (JObject vs) ''codec_name'') (\<lambda>v_codec_name.
     and_then (and_then (getitem_str (JObject vs) ''width'') py_int) (\<lambda>v_width.
     and_then (and_then (getitem_str (JObject vs) ''height'') py_int) (\<lambda>v_height.
     and_then (py_int (dict_get vs ''bit_rate'' (JString ''0''))) (\<lambda>v_bit_rate.
     and_then (py_int (dict_get vs ''bits_per_raw_sample'' (JString ''8''))) (\<lambda>v_bit_depth.
       Inr \<lparr> format_name = v_format_name,
             format_level = v_level,
             codec_name = v_codec_name,
             format_profile = dict_get vs ''profile'' (JString ''''),
             width = v_width,
             height = v_height,
             bit_rate = v_bit_rate,
             frame_rate = fr,
             display_aspect_ratio = dar,
             color_space = dict_get vs ''color_space'' (JString ''''),
             chroma_subsampling = dict_get vs ''pix_fmt'' (JString ''''),
             bit_depth = v_bit_depth,
             scan_type = derive_scan_type vs,
             scan_order = derive_scan_order vs,
             gop_m = fst gop,
             gop_n = snd gop \<rparr>)))))))"

text \<open>
  Lines 37 to 73 on the parsed document. Once \<^verbatim>\<open>video_stream['r_frame_rate']\<close> has
  been read, the stream is a dict, so the later lines read it as one.
\<close>

definition properties_of_info :: "py_env \<Rightarrow> json \<Rightarrow> py_error + video_properties" where
  "properties_of_info env video_info =
     and_then (select_stream video_info) (\<lambda>video_stream.
     and_then (derive_frame_rate video_stream) (\<lambda>fr.
     and_then (derive_display_aspect_ratio env video_stream) (\<lambda>dar.
       case video_stream of
         JObject vs \<Rightarrow> and_then (extract_gop vs) (\<lambda>gop. assemble vs fr dar gop)
       | _ \<Rightarrow> Inl TypeError)))"

definition get_video_properties :: "py_env \<Rightarrow> string \<Rightarrow> py_error + video_properties" where
  "get_video_properties env video_path =
     and_then (run env (ffprobe_command video_path)) (\<lambda>result.
     and_then (json_loads env (stdout result)) (\<lambda>video_info.
       properties_of_info env video_info))"

section \<open>The format converter\<close>

definition default_video_codec :: string where
  "default_video_codec = ''h264_videotoolbox''"

definition default_resolution :: string where
  "default_resolution = ''1920x1080''"

definition default_bitrate :: string where
  "default_bitrate = ''50M''"

definition default_audio_codec :: string where
  "default_audio_codec = ''pcm_s16le''"

text \<open>Lines 89 to 113: the argument list.\<close>

definition build_command :: "string \<Rightarrow> string \<Rightarrow> string \<Rightarrow> string \<Rightarrow> string \<Rightarrow> string \<Rightarrow> string list" where
  "build_command input_video_path output_video_path video_codec resolution bitrate audio_codec =
     [''ffmpeg'',
      ''-i'', input_video_path,
      ''-c:v'', video_codec,
      ''-profile:v'', ''4:2:2'',
      ''-g'', ''12'',
      ''-b:v'', bitrate,
      ''-minrate'', bitrate,
      ''-maxrate'', bitrate,
      ''-bufsize'', bitrate,
      ''-vf'', ''scale='' @ resolution @ '',setfield=mode=tff'',
      ''-aspect'', ''16:9'',
      ''-r'', ''25'',
      ''-c:a'', audio_codec,
      ''-ar'', ''48k'',
      ''-ac'', ''2'',
      ''-b:a'', ''1536k'']
     @ (if video_codec = ''h264_videotoolbox'' then [''-pix_fmt'', ''nv12''] else [])
     @ [output_video_path]"

text \<open>
  What a call leaves behind: the lines it printed, and the exception that left the
  function, if one did.
\<close>

record outcome =
  printed :: "string list"
  raised :: "py_error option"

text \<open>Lines 117 to 121, the body of the \<^verbatim>\<open>try\<close>: it raises, or prints one line.\<close>

definition attempt_conversion :: "py_env \<Rightarrow> string list \<Rightarrow> py_error + string" where
  "attempt_conversion env command =
     and_then (run env command) (\<lambda>result.
       if returncode result \<noteq> 0
       then Inl (RuntimeError (''ffmpeg conversion failed: '' @ stderr result))
       else Inr ''Video conversion completed successfully.'')"

text \<open>
  Line 122: the \<^verbatim>\<open>except\<close> clause names \<^verbatim>\<open>RuntimeError\<close>, which takes its subclass
  \<^verbatim>\<open>RecursionError\<close> with it, and \<^verbatim>\<open>subprocess.CalledProcessError\<close>.
\<close>

fun caught :: "py_error \<Rightarrow> bool" where
  "caught (RuntimeError _) = True"
| "caught (RecursionError _) = True"
| "caught (CalledProcessError _) = True"
| "caught _ = False"

fun str_of_error :: "py_error \<Rightarrow> string" where
  "str_of_error (RuntimeError msg) = msg"
| "str_of_error (RecursionError msg) = msg"
| "str_of_error (CalledProcessError msg) = msg"
| "str_of_error _ = []"

definition convert_video_to_requirements ::
    "py_env \<Rightarrow> string \<Rightarrow> string \<Rightarrow> string \<Rightarrow> string \<Rightarrow> string \<Rightarrow> string \<Rightarrow> outcome" where
  "convert_video_to_requirements env input_video_path output_video_path
       video_codec resolution bitrate audio_codec =
     (case attempt_conversion env
             (build_command input_video_path output_video_path
                video_codec resolution bitrate audio_codec) of
        Inr line \<Rightarrow> \<lparr> printed = [line], raised = None \<rparr>
      | Inl err \<Rightarrow>
          if caught err
          then \<lparr> printed = [''Error during conversion: '' @ str_of_error err], raised = None \<rparr>
          else \<lparr> printed = [], raised = Some err \<rparr>)"

section \<open>The form of a frame-rate field\<close>

text \<open>
  The specification speaks of a field "of the form num/den with two integers". A text is an
  integer when \<^verbatim>\<open>int\<close> reads it, and a field has the form when it is two such texts with
  a slash between them.
\<close>

definition int_text :: "string \<Rightarrow> bool" where
  "int_text s \<longleftrightarrow> (\<exists>n. py_int_str s = Inr n)"

definition num_den_form :: "string \<Rightarrow> bool" where
  "num_den_form s \<longleftrightarrow> (\<exists>a b. s = a @ ''/'' @ b \<and> int_text a \<and> int_text b)"

text \<open>The characters that can occur in a text that \<^verbatim>\<open>int\<close> reads.\<close>

definition int_char :: "char \<Rightarrow> bool" where
  "int_char c \<longleftrightarrow> is_space c \<or> c = CHR ''+'' \<or> c = CHR ''-'' \<or> c = CHR ''_'' \<or> is_digit c"

section \<open>Example inputs\<close>

text \<open>
  An environment for examples: the process always ends with exit status \<open>rc\<close> after
  printing \<open>out\<close> and \<open>err\<close>, and the parser reads \<open>out\<close> as the document \<open>doc\<close> and
  raises \<^verbatim>\<open>JSONDecodeError\<close> on every other text. Its \<open>float_of_str\<close> agrees with
  \<^verbatim>\<open>float\<close> on the strings of digits that stand for a number below \<open>2^53\<close> and fails on
  every other text; the examples use it on \<^verbatim>\<open>16\<close> and \<^verbatim>\<open>9\<close> only.
\<close>

definition digits_float :: "string \<Rightarrow> py_float option" where
  "digits_float s =
     (if s \<noteq> [] \<and> list_all is_digit s
      then (case py_int_str s of
              Inr n \<Rightarrow> if n < 2 ^ 53 then Some (Float (of_int n)) else None
            | Inl _ \<Rightarrow> None)
      else None)"

definition canned_env :: "int \<Rightarrow> string \<Rightarrow> string \<Rightarrow> json \<Rightarrow> py_env" where
  "canned_env rc out err doc =
     \<lparr> run = (\<lambda>command. Inr \<lparr> returncode = rc, stdout = out, stderr = err \<rparr>),
       json_loads = (\<lambda>text. if text = out then Inr doc else Inl JSONDecodeError),
       float_of_str = digits_float \<rparr>"

text \<open>An environment in which the executable cannot be started.\<close>

definition missing_executable_env :: py_env where
  "missing_executable_env =
     (canned_env 0 [] [] JNull) \<lparr> run := (\<lambda>command. Inl FileNotFoundError) \<rparr>"

text \<open>
  An environment in which the process runs and prints bytes on its standard error that
  cannot be decoded, so that \<^verbatim>\<open>subprocess.run\<close> raises while it reads them.
\<close>

definition undecodable_output_env :: py_env where
  "undecodable_output_env =
     (canned_env 0 [] [] JNull) \<lparr> run := (\<lambda>command. Inl UnicodeDecodeError) \<rparr>"

text \<open>
  A stream as the probe prints it for an interlaced NTSC file, the text it is read from,
  and the record the extractor derives from it: the frame rate is the float
  \<^verbatim>\<open>29.97002997002997\<close> and the aspect ratio the float \<^verbatim>\<open>1.7777777777777777\<close>.
\<close>

definition sample_stream :: "(string \<times> json) list" where
  "sample_stream =
     [(''codec_name'', JString ''h264''),
      (''profile'', JString ''High''),
      (''width'', JInt 1920),
      (''height'', JInt 1080),
      (''pix_fmt'', JString ''yuv420p''),
      (''level'', JInt 40),
      (''field_order'', JString ''tt''),
      (''r_frame_rate'', JString ''30000/1001''),
      (''display_aspect_ratio'', JString ''16:9''),
      (''bit_rate'', JString ''5000000''),
      (''tags'', JObject [(''language'', JString ''eng'')])]"

definition sample_info :: json where
  "sample_info = JObject [(''streams'', JArray [JObject sample_stream])]"

definition sample_text :: string where
  \<open>sample_text =
     ''{"streams": [{"codec_name": "h264", "profile": "High", "width": 1920, '' @
     ''"height": 1080, "pix_fmt": "yuv420p", "level": 40, "field_order": "tt", '' @
     ''"r_frame_rate": "30000/1001", "display_aspect_ratio": "16:9", '' @
     ''"bit_rate": "5000000", "tags": {"language": "eng"}}]}''\<close>

definition sample_properties :: video_properties where
  "sample_properties =
     \<lparr> format_name = JString ''h264'',
       format_level = JInt 40,
       codec_name = JString ''h264'',
       format_profile = JString ''High'',
       width = 1920,
       height = 1080,
       bit_rate = 5000000,
       frame_rate = Float (1054476685978981 / 35184372088832),
       display_aspect_ratio = Float (2001599834386887 / 1125899906842624),
       color_space = JString [],
       chroma_subsampling = JString ''yuv420p'',
       bit_depth = 8,
       scan_type = ''interlaced'',
       scan_order = ''TFF'',
       gop_m = 0,
       gop_n = 0 \<rparr>"

section \<open>Lemmas about sequencing and the built-in operations\<close>

lemma and_then_Inl [simp]: "and_then (Inl e) f = Inl e"
  by (simp add: and_then_def)

lemma and_then_Inr [simp]: "and_then (Inr x) f = f x"
  by (simp add: and_then_def)

lemma and_then_eq_Inr: "and_then r f = Inr y \<longleftrightarrow> (\<exists>x. r = Inr x \<and> f x = Inr y)"
  by (cases r) simp_all

lemma and_then_InrE:
  assumes "and_then r f = Inr y"
  obtains x where "r = Inr x" and "f x = Inr y"
  using assms by (cases r) simp_all

lemma or_raise_None [simp]: "or_raise None e = Inl e"
  by (simp add: or_raise_def)

lemma or_raise_Some [simp]: "or_raise (Some x) e = Inr x"
  by (simp add: or_raise_def)

lemma or_raise_eq_Inr: "or_raise r e = Inr x \<longleftrightarrow> r = Some x"
  by (cases r) simp_all

lemma str_split_not_Nil: "str_split sep s \<noteq> []"
  by (induction s) (auto split: list.splits)

text \<open>One piece comes back exactly when the separator does not occur.\<close>

lemma str_split_single: "str_split sep s = [a] \<longleftrightarrow> s = a \<and> sep \<notin> set a"
proof (induction s arbitrary: a)
  case Nil
  then show ?case by auto
next
  case (Cons c cs)
  obtain p ps where sp: "str_split sep cs = p # ps"
    using str_split_not_Nil [of sep cs] by (cases "str_split sep cs") auto
  show ?case
  proof (cases "c = sep")
    case True
    then show ?thesis using str_split_not_Nil [of sep cs] by auto
  next
    case False
    show ?thesis
    proof (cases a)
      case Nil
      then show ?thesis using False sp by simp
    next
      case (Cons x xs)
      have "str_split sep (c # cs) = [a] \<longleftrightarrow> c = x \<and> str_split sep cs = [xs]"
        using False sp Cons by auto
      also have "\<dots> \<longleftrightarrow> c = x \<and> cs = xs \<and> sep \<notin> set xs"
        using Cons.IH [of xs] by simp
      also have "\<dots> \<longleftrightarrow> c # cs = a \<and> sep \<notin> set a"
        using False Cons by auto
      finally show ?thesis .
    qed
  qed
qed

text \<open>Two pieces come back exactly when the separator occurs once, between them.\<close>

lemma str_split_pair:
  "str_split sep s = [a, b] \<longleftrightarrow> s = a @ sep # b \<and> sep \<notin> set a \<and> sep \<notin> set b"
proof (induction s arbitrary: a)
  case Nil
  then show ?case by simp
next
  case (Cons c cs)
  obtain p ps where sp: "str_split sep cs = p # ps"
    using str_split_not_Nil [of sep cs] by (cases "str_split sep cs") auto
  show ?case
  proof (cases "c = sep")
    case True
    have "str_split sep (c # cs) = [a, b] \<longleftrightarrow> a = [] \<and> str_split sep cs = [b]"
      using True by auto
    also have "\<dots> \<longleftrightarrow> a = [] \<and> cs = b \<and> sep \<notin> set b"
      by (simp add: str_split_single)
    also have "\<dots> \<longleftrightarrow> c # cs = a @ sep # b \<and> sep \<notin> set a \<and> sep \<notin> set b"
      using True by (cases a) auto
    finally show ?thesis .
  next
    case False
    show ?thesis
    proof (cases a)
      case Nil
      then show ?thesis using False sp by simp
    next
      case (Cons x xs)
      have "str_split sep (c # cs) = [a, b] \<longleftrightarrow> c = x \<and> str_split sep cs = [xs, b]"
        using False sp Cons by auto
      also have "\<dots> \<longleftrightarrow> c = x \<and> cs = xs @ sep # b \<and> sep \<notin> set xs \<and> sep \<notin> set b"
        using Cons.IH [of xs] by simp
      also have "\<dots> \<longleftrightarrow> c # cs = a @ sep # b \<and> sep \<notin> set a \<and> sep \<notin> set b"
        using False Cons by auto
      finally show ?thesis .
    qed
  qed
qed

section \<open>The shape of a successful extraction\<close>

lemma derive_frame_rate_dict:
  assumes "derive_frame_rate video_stream = Inr fr"
  shows "\<exists>vs. video_stream = JObject vs"
  using assms unfolding derive_frame_rate_def getitem_str_def
  by (cases video_stream) simp_all

lemma properties_of_info_Inr:
  assumes "properties_of_info env video_info = Inr r"
  shows "\<exists>vs fr dar gop.
           select_stream video_info = Inr (JObject vs) \<and>
           derive_frame_rate (JObject vs) = Inr fr \<and>
           derive_display_aspect_ratio env (JObject vs) = Inr dar \<and>
           extract_gop vs = Inr gop \<and>
           assemble vs fr dar gop = Inr r"
proof -
  from assms [unfolded properties_of_info_def] obtain video_stream where
    sel: "select_stream video_info = Inr video_stream" and
    rest: "and_then (derive_frame_rate video_stream) (\<lambda>fr.
           and_then (derive_display_aspect_ratio env video_stream) (\<lambda>dar.
             case video_stream of
               JObject vs \<Rightarrow> and_then (extract_gop vs) (\<lambda>gop. assemble vs fr dar gop)
             | _ \<Rightarrow> Inl TypeError)) = Inr r"
    by (rule and_then_InrE)
  from rest obtain fr where
    fr: "derive_frame_rate video_stream = Inr fr" and
    rest2: "and_then (derive_display_aspect_ratio env video_stream) (\<lambda>dar.
             case video_stream of
               JObject vs \<Rightarrow> and_then (extract_gop vs) (\<lambda>gop. assemble vs fr dar gop)
             | _ \<Rightarrow> Inl TypeError) = Inr r"
    by (rule and_then_InrE)
  from rest2 obtain dar where
    dar: "derive_display_aspect_ratio env video_stream = Inr dar" and
    rest3: "(case video_stream of
               JObject vs \<Rightarrow> and_then (extract_gop vs) (\<lambda>gop. assemble vs fr dar gop)
             | _ \<Rightarrow> Inl TypeError) = Inr r"
    by (rule and_then_InrE)
  from derive_frame_rate_dict [OF fr] obtain vs where vs: "video_stream = JObject vs" ..
  from rest3 have "and_then (extract_gop vs) (\<lambda>gop. assemble vs fr dar gop) = Inr r"
    by (simp add: vs)
  then obtain gop where
    gop: "extract_gop vs = Inr gop" and asm: "assemble vs fr dar gop = Inr r"
    by (rule and_then_InrE)
  from sel fr dar gop asm show ?thesis
    unfolding vs by (intro exI conjI)
qed

lemma get_video_properties_Inr:
  assumes "get_video_properties env video_path = Inr r"
  shows "\<exists>result video_info vs fr dar gop.
           run env (ffprobe_command video_path) = Inr result \<and>
           json_loads env (stdout result) = Inr video_info \<and>
           select_stream video_info = Inr (JObject vs) \<and>
           derive_frame_rate (JObject vs) = Inr fr \<and>
           derive_display_aspect_ratio env (JObject vs) = Inr dar \<and>
           extract_gop vs = Inr gop \<and>
           assemble vs fr dar gop = Inr r"
proof -
  from assms [unfolded get_video_properties_def] obtain result where
    run: "run env (ffprobe_command video_path) = Inr result" and
    rest: "and_then (json_loads env (stdout result))
             (\<lambda>video_info. properties_of_info env video_info) = Inr r"
    by (rule and_then_InrE)
  from rest obtain video_info where
    loads: "json_loads env (stdout result) = Inr video_info" and
    info: "properties_of_info env video_info = Inr r"
    by (rule and_then_InrE)
  from properties_of_info_Inr [OF info] obtain vs fr dar gop where
    "select_stream video_info = Inr (JObject vs)"
    "derive_frame_rate (JObject vs) = Inr fr"
    "derive_display_aspect_ratio env (JObject vs) = Inr dar"
    "extract_gop vs = Inr gop"
    "assemble vs fr dar gop = Inr r"
    by (elim exE conjE)
  with run loads show ?thesis
    by (intro exI conjI)
qed

lemma properties_of_stream:
  assumes "run env (ffprobe_command video_path) = Inr result"
      and "json_loads env (stdout result) = Inr video_info"
      and "select_stream video_info = Inr (JObject vs)"
  shows "get_video_properties env video_path =
           and_then (derive_frame_rate (JObject vs)) (\<lambda>fr.
           and_then (derive_display_aspect_ratio env (JObject vs)) (\<lambda>dar.
           and_then (extract_gop vs) (\<lambda>gop. assemble vs fr dar gop)))"
  using assms by (simp add: get_video_properties_def properties_of_info_def)

lemma assemble_fields:
  assumes "assemble vs fr dar gop = Inr r"
  shows "frame_rate r = fr" and "display_aspect_ratio r = dar"
    and "scan_type r = derive_scan_type vs" and "scan_order r = derive_scan_order vs"
    and "gop_m r = fst gop" and "gop_n r = snd gop"
proof -
  from assms obtain a b c d e f g where
    "r = \<lparr> format_name = a, format_level = b, codec_name = c,
           format_profile = dict_get vs ''profile'' (JString ''''),
           width = d, height = e, bit_rate = f, frame_rate = fr,
           display_aspect_ratio = dar,
           color_space = dict_get vs ''color_space'' (JString ''''),
           chroma_subsampling = dict_get vs ''pix_fmt'' (JString ''''),
           bit_depth = g, scan_type = derive_scan_type vs,
           scan_order = derive_scan_order vs, gop_m = fst gop, gop_n = snd gop \<rparr>"
    unfolding assemble_def and_then_eq_Inr by blast
  then show "frame_rate r = fr" and "display_aspect_ratio r = dar"
    and "scan_type r = derive_scan_type vs" and "scan_order r = derive_scan_order vs"
    and "gop_m r = fst gop" and "gop_n r = snd gop"
    by simp_all
qed

section \<open>Lemmas about rounding\<close>

text \<open>A value within half a unit above an integer, or below it, rounds to that integer.\<close>

lemma round_half_even_below:
  assumes "of_int f \<le> x" and "x < of_int f + 1 / 2"
  shows "round_half_even x = f"
proof -
  from assms have "\<lfloor>x\<rfloor> = f" by (intro floor_unique) auto
  with assms show ?thesis by (simp add: round_half_even_def)
qed

lemma round_half_even_above:
  assumes "of_int f - 1 / 2 < x" and "x < of_int f"
  shows "round_half_even x = f"
proof -
  from assms have "\<lfloor>x\<rfloor> = f - 1" by (intro floor_unique) auto
  with assms show ?thesis by (simp add: round_half_even_def)
qed

text \<open>
  The quotient 30000 / 1001 lies between 16 and 32, where binary64 values are
  \<open>2^(-48)\<close> apart; it is 8435813487831848.15... of these units.
\<close>

lemma bit_length_30000: "bit_length 30000 = 15"
  by simp

lemma bit_length_1001: "bit_length 1001 = 10"
  by simp

lemma round_quotient_30000_1001:
  "round_quotient 30000 1001 = 1054476685978981 / 35184372088832"
proof -
  have r: "round_half_even (8444249301319680000 / 1001) = 8435813487831848"
    by (rule round_half_even_below) simp_all
  show ?thesis
    by (simp add: round_quotient_def bit_length_30000 bit_length_1001 pow2_def r)
qed

lemma int_truediv_30000_1001:
  "int_truediv 30000 1001 = Inr (Float (1054476685978981 / 35184372088832))"
  by (simp add: int_truediv_def round_quotient_30000_1001)

text \<open>
  The quotient 16 / 9 lies between 1 and 2, where binary64 values are \<open>2^(-52)\<close> apart;
  it is 8006399337547548.44... of these units.
\<close>

lemma bit_length_16: "bit_length 16 = 5"
  by simp

lemma bit_length_9: "bit_length 9 = 4"
  by simp

lemma round_quotient_16_9:
  "round_quotient 16 9 = 2001599834386887 / 1125899906842624"
proof -
  have r: "round_half_even (72057594037927936 / 9) = 8006399337547548"
    by (rule round_half_even_below) simp_all
  show ?thesis
    by (simp add: round_quotient_def bit_length_16 bit_length_9 pow2_def r)
qed

lemma gcd_16_9: "gcd (16::int) 9 = 1"
  by (simp add: gcd_non_0_int)

lemma float_truediv_16_9:
  "float_truediv (Float 16) (Float 9) = Inr (Float (2001599834386887 / 1125899906842624))"
proof -
  have a: "quotient_of (Fract 16 9) = (16, 9)"
    by (simp add: quotient_of_Fract Rat.normalize_def gcd_16_9)
  have b: "Fract 16 9 = 16 / 9"
    by (simp add: Fract_of_int_quotient)
  from a have "quotient_of (16 / 9) = (16, 9)"
    unfolding b .
  then have "round_binary64 (16 / 9) = 2001599834386887 / 1125899906842624"
    by (simp add: round_binary64_def round_quotient_16_9)
  then show ?thesis
    by (simp add: float_truediv_def)
qed

section \<open>The example stream, step by step\<close>

lemma canned_run:
  "run (canned_env rc out err doc) command = Inr \<lparr> returncode = rc, stdout = out, stderr = err \<rparr>"
  by (simp add: canned_env_def)

lemma canned_loads:
  "json_loads (canned_env rc out err doc) (stdout \<lparr> returncode = rc, stdout = out, stderr = err \<rparr>)
     = Inr doc"
  by (simp add: canned_env_def)

lemmas int_str_defs = py_int_str_def int_literal_def is_digit_def is_space_def digit_value_def

lemma sample_select: "select_stream sample_info = Inr (JObject sample_stream)"
  by (simp add: select_stream_def sample_info_def getitem_str_def getitem_0_def)

lemma sample_frame_rate:
  "derive_frame_rate (JObject sample_stream) = Inr (Float (1054476685978981 / 35184372088832))"
  by (simp add: derive_frame_rate_def sample_stream_def getitem_str_def split_method_def
        unpack_two_ints_def int_str_defs int_truediv_30000_1001)

lemma sample_aspect_ratio:
  "derive_display_aspect_ratio (canned_env rc out err doc) (JObject sample_stream)
     = Inr (Float (2001599834386887 / 1125899906842624))"
  by (simp add: derive_display_aspect_ratio_def sample_stream_def getitem_str_def
        split_method_def index_1_def canned_env_def digits_float_def int_str_defs
        float_truediv_16_9)

lemma sample_gop: "extract_gop sample_stream = Inr (0, 0)"
  by (simp add: extract_gop_def sample_stream_def contains_str_def)

lemma sample_assemble:
  "assemble sample_stream (Float (1054476685978981 / 35184372088832))
     (Float (2001599834386887 / 1125899906842624)) (0, 0)
   = Inr sample_properties"
  by (simp add: assemble_def sample_stream_def sample_properties_def getitem_str_def
        py_int_def dict_get_def derive_scan_type_def derive_scan_order_def int_str_defs)

lemma sample_run:
  "get_video_properties (canned_env rc sample_text err sample_info) video_path
     = Inr sample_properties"
  by (simp add: properties_of_stream [OF canned_run canned_loads sample_select]
        sample_frame_rate sample_aspect_ratio sample_gop sample_assemble)

text \<open>The fields of a returned record, read back from the stream it was derived from.\<close>

lemma stream_fields:
  assumes "run env (ffprobe_command video_path) = Inr result"
      and "json_loads env (stdout result) = Inr video_info"
      and "select_stream video_info = Inr (JObject vs)"
      and "get_video_properties env video_path = Inr r"
  shows "derive_frame_rate (JObject vs) = Inr (frame_rate r)"
    and "extract_gop vs = Inr (gop_m r, gop_n r)"
    and "scan_type r = derive_scan_type vs"
    and "scan_order r = derive_scan_order vs"
proof -
  from get_video_properties_Inr [OF assms(4)] obtain result' video_info' vs' fr dar gop where
    a: "run env (ffprobe_command video_path) = Inr result'"
       "json_loads env (stdout result') = Inr video_info'"
       "select_stream video_info' = Inr (JObject vs')"
    and b: "derive_frame_rate (JObject vs') = Inr fr"
       "extract_gop vs' = Inr gop"
       "assemble vs' fr dar gop = Inr r"
    by (elim exE conjE)
  from a assms(1-3) have eq: "vs' = vs" by simp
  note f = assemble_fields [OF b(3)]
  from b(1) show "derive_frame_rate (JObject vs) = Inr (frame_rate r)"
    by (simp add: eq f(1))
  from b(2) show "extract_gop vs = Inr (gop_m r, gop_n r)"
    by (simp add: eq f(5) f(6))
  show "scan_type r = derive_scan_type vs" by (simp add: f(3) eq)
  show "scan_order r = derive_scan_order vs" by (simp add: f(4) eq)
qed

text \<open>The steps after the parse do not look at the process.\<close>

lemma derive_display_aspect_ratio_run_update:
  "derive_display_aspect_ratio (env \<lparr> run := f \<rparr>) = derive_display_aspect_ratio env"
  by (intro ext) (simp add: derive_display_aspect_ratio_def)

lemma properties_of_info_run_update:
  "properties_of_info (env \<lparr> run := f \<rparr>) = properties_of_info env"
  by (intro ext) (simp add: properties_of_info_def derive_display_aspect_ratio_run_update)

section \<open>Lemmas about integer texts\<close>

lemma py_int_str_error: "py_int_str s = Inl e \<Longrightarrow> e = ValueError"
  by (auto simp: py_int_str_def Let_def split: option.splits)

lemma scan_digits_chars:
  "scan_digits acc prev_us cs = Some n \<Longrightarrow> \<forall>c \<in> set cs. c = CHR ''_'' \<or> is_digit c"
  by (induction acc prev_us cs rule: scan_digits.induct) (auto split: if_splits)

lemma int_literal_chars:
  assumes "int_literal v = Some n"
  shows "\<forall>c \<in> set v. c = CHR ''_'' \<or> is_digit c"
proof (cases v)
  case Nil
  with assms show ?thesis by (simp add: int_literal_def)
next
  case (Cons c cs)
  with assms have "is_digit c" and "scan_digits (digit_value c) False cs = Some n"
    by (auto simp: int_literal_def split: if_splits)
  with Cons scan_digits_chars [of "digit_value c" False cs n] show ?thesis by auto
qed

lemma set_dropWhile_cases: "x \<in> set xs \<Longrightarrow> P x \<or> x \<in> set (dropWhile P xs)"
  by (induction xs) auto

lemma py_int_str_chars:
  assumes "py_int_str s = Inr n"
  shows "\<forall>c \<in> set s. int_char c"
proof
  fix c assume c: "c \<in> set s"
  define t where "t = dropWhile is_space s"
  define u where "u = (case t of [] \<Rightarrow> [] | c # cs \<Rightarrow> if c = CHR ''+'' \<or> c = CHR ''-'' then cs else t)"
  define v where "v = rev (dropWhile is_space (rev u))"
  have "\<exists>m. int_literal v = Some m"
    unfolding v_def u_def t_def using assms
    by (simp add: py_int_str_def Let_def split: option.splits)
  then obtain m where lit: "int_literal v = Some m" ..
  have v: "\<forall>c \<in> set v. c = CHR ''_'' \<or> is_digit c"
    by (rule int_literal_chars [OF lit])
  have u: "int_char x" if "x \<in> set u" for x
  proof -
    from that have "x \<in> set (rev u)" by simp
    then have "is_space x \<or> x \<in> set (dropWhile is_space (rev u))"
      by (rule set_dropWhile_cases)
    then have "is_space x \<or> x \<in> set v" by (simp add: v_def)
    with v show ?thesis by (auto simp: int_char_def)
  qed
  have t: "int_char x" if "x \<in> set t" for x
  proof (cases t)
    case Nil
    with that show ?thesis by simp
  next
    case (Cons y ys)
    show ?thesis
    proof (cases "y = CHR ''+'' \<or> y = CHR ''-''")
      case True
      with Cons have "u = ys" by (simp add: u_def)
      with that Cons True u show ?thesis by (auto simp: int_char_def)
    next
      case False
      with Cons have "u = t" by (simp add: u_def)
      with that u show ?thesis by simp
    qed
  qed
  from c have "is_space c \<or> c \<in> set t"
    unfolding t_def by (rule set_dropWhile_cases)
  with t show "int_char c" by (auto simp: int_char_def)
qed

lemma int_text_no_slash: "int_text a \<Longrightarrow> CHR ''/'' \<notin> set a"
proof
  assume "int_text a" and "CHR ''/'' \<in> set a"
  then obtain n where "py_int_str a = Inr n" by (auto simp: int_text_def)
  from py_int_str_chars [OF this] \<open>CHR ''/'' \<in> set a\<close> have "int_char CHR ''/''" by blast
  then show False by (simp add: int_char_def is_space_def is_digit_def)
qed

lemma num_den_form_iff:
  "num_den_form s \<longleftrightarrow> (\<exists>n d. unpack_two_ints (str_split CHR ''/'' s) = Inr (n, d))"
proof
  assume "num_den_form s"
  then obtain a b n d where s: "s = a @ CHR ''/'' # b"
    and a: "py_int_str a = Inr n" and b: "py_int_str b = Inr d"
    by (auto simp: num_den_form_def int_text_def)
  from a b have "int_text a" "int_text b"
    by (auto simp: int_text_def)
  then have "CHR ''/'' \<notin> set a" "CHR ''/'' \<notin> set b"
    by (auto dest: int_text_no_slash)
  with s have "str_split CHR ''/'' s = [a, b]" by (simp add: str_split_pair)
  with a b show "\<exists>n d. unpack_two_ints (str_split CHR ''/'' s) = Inr (n, d)"
    by (simp add: unpack_two_ints_def)
next
  assume "\<exists>n d. unpack_two_ints (str_split CHR ''/'' s) = Inr (n, d)"
  then obtain n d where r: "unpack_two_ints (str_split CHR ''/'' s) = Inr (n, d)" by blast
  then obtain a b where sp: "str_split CHR ''/'' s = [a, b]"
    by (auto simp: unpack_two_ints_def split: list.splits)
  with r have "int_text a" "int_text b"
    by (auto simp: unpack_two_ints_def int_text_def and_then_eq_Inr)
  moreover from sp have "s = a @ CHR ''/'' # b" by (simp add: str_split_pair)
  ultimately show "num_den_form s" by (auto simp: num_den_form_def)
qed

lemma unpack_two_ints_error: "unpack_two_ints parts = Inl e \<Longrightarrow> e = ValueError"
  by (auto simp: unpack_two_ints_def and_then_def split: list.splits sum.splits
        dest: py_int_str_error)

lemma malformed_unpack:
  assumes "\<not> num_den_form s"
  shows "unpack_two_ints (str_split CHR ''/'' s) = Inl ValueError"
proof (cases "unpack_two_ints (str_split CHR ''/'' s)")
  case (Inl e)
  then show ?thesis using unpack_two_ints_error by blast
next
  case (Inr p)
  then have "num_den_form s" by (cases p) (auto simp: num_den_form_iff)
  with assms show ?thesis by simp
qed

section \<open>Claims about the property extractor\<close>

text \<open>
  C1. For every probe output whose parsed JSON document has no \<^verbatim>\<open>streams\<close> entry, or
  has an empty \<^verbatim>\<open>streams\<close> array, the extraction fails at the selection of the stream
  and returns no property record: an absent entry raises \<^verbatim>\<open>KeyError('streams')\<close>, an
  empty array raises \<^verbatim>\<open>IndexError\<close>. These two exceptions of line 37 are what the
  specification calls MissingStreamError.
\<close>

theorem missing_stream_fails:
  assumes "run env (ffprobe_command video_path) = Inr result"
      and "json_loads env (stdout result) = Inr (JObject kvs)"
  shows "(map_of kvs ''streams'' = None \<longrightarrow>
            get_video_properties env video_path = Inl (KeyError (KStr ''streams'')))
       \<and> (map_of kvs ''streams'' = Some (JArray []) \<longrightarrow>
            get_video_properties env video_path = Inl IndexError)"
  using assms
  by (simp add: get_video_properties_def properties_of_info_def select_stream_def
        getitem_str_def getitem_0_def)

theorem missing_stream_fails_witness:
  \<open>get_video_properties (canned_env 0 ''{}'' [] (JObject [])) ''clip.mp4''
     = Inl (KeyError (KStr ''streams''))
   \<and> get_video_properties
        (canned_env 0 ''{"streams": []}'' [] (JObject [(''streams'', JArray [])])) ''clip.mp4''
     = Inl IndexError\<close>
proof -
  have r1: "run (canned_env 0 ''{}'' [] (JObject [])) (ffprobe_command ''clip.mp4'')
              = Inr \<lparr> returncode = 0, stdout = ''{}'', stderr = [] \<rparr>"
    by (simp add: canned_env_def)
  have l1: "json_loads (canned_env 0 ''{}'' [] (JObject []))
              (stdout \<lparr> returncode = 0, stdout = ''{}'', stderr = [] \<rparr>) = Inr (JObject [])"
    by (simp add: canned_env_def)
  have r2: \<open>run (canned_env 0 ''{"streams": []}'' [] (JObject [(''streams'', JArray [])]))
              (ffprobe_command ''clip.mp4'')
              = Inr \<lparr> returncode = 0, stdout = ''{"streams": []}'', stderr = [] \<rparr>\<close>
    by (simp add: canned_env_def)
  have l2: \<open>json_loads (canned_env 0 ''{"streams": []}'' [] (JObject [(''streams'', JArray [])]))
              (stdout \<lparr> returncode = 0, stdout = ''{"streams": []}'', stderr = [] \<rparr>)
              = Inr (JObject [(''streams'', JArray [])])\<close>
    by (simp add: canned_env_def)
  from missing_stream_fails [OF r1 l1] missing_stream_fails [OF r2 l2]
  show ?thesis by simp
qed

text \<open>
  C2, as the code has it. The extractor never reads the exit status of the probing
  process: for every invocation in which \<^verbatim>\<open>subprocess.run\<close> returns, replacing the exit
  status by any other one leaves the outcome unchanged, so a non-zero exit alone causes
  no failure. The outcome is decided by the captured standard output: when
  \<^verbatim>\<open>json.loads\<close> raises on it (\<^verbatim>\<open>JSONDecodeError\<close> on a text it cannot read,
  \<^verbatim>\<open>RecursionError\<close> on one nested too deeply), the extraction fails with exactly that
  exception, and when \<^verbatim>\<open>json.loads\<close> returns a document, the outcome is that of lines
  37 to 73 on the document.
\<close>

theorem exit_status_not_read:
  assumes "run env (ffprobe_command video_path) = Inr result"
  shows "(\<forall>e. json_loads env (stdout result) = Inl e \<longrightarrow>
            get_video_properties env video_path = Inl e)
       \<and> (\<forall>video_info. json_loads env (stdout result) = Inr video_info \<longrightarrow>
            get_video_properties env video_path = properties_of_info env video_info)
       \<and> get_video_properties (env \<lparr> run := (\<lambda>command. Inr (result \<lparr> returncode := rc \<rparr>)) \<rparr>)
            video_path
          = get_video_properties env video_path"
  using assms by (simp add: get_video_properties_def properties_of_info_run_update)

theorem exit_status_not_read_witness:
  "get_video_properties
     ((canned_env 1 ''Invalid data'' [] JNull)
        \<lparr> json_loads := (\<lambda>text. Inl (RecursionError ''maximum recursion depth exceeded'')) \<rparr>)
     ''clip.mp4''
     = Inl (RecursionError ''maximum recursion depth exceeded'')
   \<and> get_video_properties
       ((canned_env 1 ''Invalid data'' [] JNull)
          \<lparr> json_loads := (\<lambda>text. Inl (RecursionError ''maximum recursion depth exceeded'')),
            run := (\<lambda>command. Inr \<lparr> returncode = 0, stdout = ''Invalid data'', stderr = [] \<rparr>) \<rparr>)
       ''clip.mp4''
     = Inl (RecursionError ''maximum recursion depth exceeded'')
   \<and> get_video_properties (canned_env 1 ''Invalid data'' [] JNull) ''clip.mp4''
     = properties_of_info (canned_env 1 ''Invalid data'' [] JNull) JNull"
proof -
  have r: "run ((canned_env 1 ''Invalid data'' [] JNull)
                  \<lparr> json_loads := (\<lambda>text. Inl (RecursionError ''maximum recursion depth exceeded'')) \<rparr>)
             (ffprobe_command ''clip.mp4'')
           = Inr \<lparr> returncode = 1, stdout = ''Invalid data'', stderr = [] \<rparr>"
    by (simp add: canned_env_def)
  from exit_status_not_read [OF r, of 0]
       exit_status_not_read [OF canned_run, of 1 "''Invalid data''" "[]" JNull "''clip.mp4''" 0]
  show ?thesis
    by (simp add: canned_env_def)
qed

text \<open>
  C2, as the specification states it, fails: a probe that ends with exit status 1 after
  printing a complete document yields a record, not an error.
\<close>

theorem nonzero_exit_returns_record:
  "run (canned_env 1 sample_text [] sample_info) (ffprobe_command ''clip.mp4'')
     = Inr \<lparr> returncode = 1, stdout = sample_text, stderr = [] \<rparr>
   \<and> returncode \<lparr> returncode = 1, stdout = sample_text, stderr = [] \<rparr> \<noteq> 0
   \<and> get_video_properties (canned_env 1 sample_text [] sample_info) ''clip.mp4''
     = Inr sample_properties
   \<and> get_video_properties (canned_env 1 sample_text [] sample_info) ''clip.mp4''
     \<noteq> Inl JSONDecodeError"
  by (simp add: canned_run sample_run)

text \<open>
  A probe that ends with exit status 1 after printing an empty document fails at the
  selection of the stream, as a probe with exit status 0 would.
\<close>

lemma nonzero_exit_empty_document:
  "get_video_properties (canned_env 1 ''{}'' ''No such file or directory'' (JObject []))
     ''missing.mp4''
   = Inl (KeyError (KStr ''streams''))"
  by (simp add: get_video_properties_def properties_of_info_def select_stream_def
        getitem_str_def canned_env_def)

text \<open>
  C4. For every probe output whose selected stream is a dict, the extraction fails at the
  derivation of the frame rate when the field \<^verbatim>\<open>r_frame_rate\<close> is absent
  (\<^verbatim>\<open>KeyError('r_frame_rate')\<close>), when it is a string that is not of the form
  \<^verbatim>\<open>num/den\<close> with two integers (\<^verbatim>\<open>ValueError\<close>), and when it is not a string at all
  (\<^verbatim>\<open>AttributeError\<close>). These exceptions of line 40 are what the specification calls
  MalformedFieldError.
\<close>

theorem malformed_frame_rate_fails:
  assumes "run env (ffprobe_command video_path) = Inr result"
      and "json_loads env (stdout result) = Inr video_info"
      and "select_stream video_info = Inr (JObject vs)"
  shows "(map_of vs ''r_frame_rate'' = None \<longrightarrow>
            get_video_properties env video_path = Inl (KeyError (KStr ''r_frame_rate'')))
       \<and> (\<forall>s. map_of vs ''r_frame_rate'' = Some (JString s) \<longrightarrow> \<not> num_den_form s \<longrightarrow>
            get_video_properties env video_path = Inl ValueError)
       \<and> (\<forall>v. map_of vs ''r_frame_rate'' = Some v \<longrightarrow> (\<forall>s. v \<noteq> JString s) \<longrightarrow>
            get_video_properties env video_path = Inl AttributeError)"
proof (intro conjI allI impI)
  assume "map_of vs ''r_frame_rate'' = None"
  then show "get_video_properties env video_path = Inl (KeyError (KStr ''r_frame_rate''))"
    by (simp add: properties_of_stream [OF assms] derive_frame_rate_def getitem_str_def)
next
  fix s assume "map_of vs ''r_frame_rate'' = Some (JString s)" and "\<not> num_den_form s"
  then show "get_video_properties env video_path = Inl ValueError"
    by (simp add: properties_of_stream [OF assms] derive_frame_rate_def getitem_str_def
          split_method_def malformed_unpack)
next
  fix v assume "map_of vs ''r_frame_rate'' = Some v" and "\<forall>s. v \<noteq> JString s"
  then show "get_video_properties env video_path = Inl AttributeError"
    by (cases v)
       (simp_all add: properties_of_stream [OF assms] derive_frame_rate_def getitem_str_def
          split_method_def)
qed

theorem malformed_frame_rate_fails_witness:
  \<open>\<not> num_den_form ''25''
   \<and> get_video_properties
       (canned_env 0 ''{"streams": [{"r_frame_rate": "25"}]}'' []
          (JObject [(''streams'', JArray [JObject [(''r_frame_rate'', JString ''25'')]])]))
       ''clip.mp4''
     = Inl ValueError
   \<and> get_video_properties
       (canned_env 0 ''{"streams": [{}]}'' [] (JObject [(''streams'', JArray [JObject []])]))
       ''clip.mp4''
     = Inl (KeyError (KStr ''r_frame_rate''))\<close>
proof -
  have n: "\<not> num_den_form ''25''"
    by (simp add: num_den_form_iff unpack_two_ints_def)
  have s1: "select_stream (JObject [(''streams'', JArray [JObject [(''r_frame_rate'', JString ''25'')]])])
              = Inr (JObject [(''r_frame_rate'', JString ''25'' :: json)])"
    by (simp add: select_stream_def getitem_str_def getitem_0_def)
  have s2: "select_stream (JObject [(''streams'', JArray [JObject []])])
              = Inr (JObject ([] :: (string \<times> json) list))"
    by (simp add: select_stream_def getitem_str_def getitem_0_def)
  from malformed_frame_rate_fails [OF canned_run canned_loads s1]
       malformed_frame_rate_fails [OF canned_run canned_loads s2] n
  show ?thesis by simp
qed

text \<open>
  C7. For every probe output whose selected stream has a \<^verbatim>\<open>field_order\<close> value and for
  which a record is returned, the scan order of the record is \<^verbatim>\<open>TFF\<close> exactly when the
  value is the string \<^verbatim>\<open>tt\<close>, \<^verbatim>\<open>BFF\<close> exactly when it is the string \<^verbatim>\<open>bb\<close>, and
  \<^verbatim>\<open>Progressive\<close> for every other value; the scan type is \<^verbatim>\<open>interlaced\<close> for every
  value other than the string \<^verbatim>\<open>progressive\<close>, and \<^verbatim>\<open>progressive\<close> for that one.
\<close>

theorem scan_order_and_type:
  assumes "run env (ffprobe_command video_path) = Inr result"
      and "json_loads env (stdout result) = Inr video_info"
      and "select_stream video_info = Inr (JObject vs)"
      and "get_video_properties env video_path = Inr r"
      and "map_of vs ''field_order'' = Some v"
  shows "(scan_order r = ''TFF'' \<longleftrightarrow> v = JString ''tt'')
       \<and> (scan_order r = ''BFF'' \<longleftrightarrow> v = JString ''bb'')
       \<and> (v \<noteq> JString ''tt'' \<and> v \<noteq> JString ''bb'' \<longrightarrow> scan_order r = ''Progressive'')
       \<and> (v \<noteq> JString ''progressive'' \<longrightarrow> scan_type r = ''interlaced'')
       \<and> (v = JString ''progressive'' \<longrightarrow> scan_type r = ''progressive'')"
  using assms(5)
  by (simp add: stream_fields(3,4) [OF assms(1-4)] derive_scan_order_def derive_scan_type_def
        dict_get_def)

theorem scan_order_and_type_witness:
  "map_of sample_stream ''field_order'' = Some (JString ''tt'')
   \<and> scan_order sample_properties = ''TFF''
   \<and> scan_type sample_properties = ''interlaced''"
proof -
  have f: "map_of sample_stream ''field_order'' = Some (JString ''tt'')"
    by (simp add: sample_stream_def)
  from scan_order_and_type [OF canned_run canned_loads sample_select
         sample_run [of 0 "[]" "''clip.mp4''"] f] f
  show ?thesis by simp
qed

text \<open>
  C8. For every probe output whose selected stream has the frame-rate field
  \<^verbatim>\<open>30000/1001\<close> and for which a record is returned, the frame rate of the record is the
  floating quotient of the integers 30000 and 1001: the value of \<^verbatim>\<open>30000 / 1001\<close>, which
  is the float \<^verbatim>\<open>29.97002997002997\<close>, that is \<open>1054476685978981 / 2^45\<close>, the binary64
  value nearest to the quotient and less than \<open>2^(-49)\<close> away from it. No rounding to
  fewer digits takes place: the frame rate is neither \<^verbatim>\<open>29.97\<close> nor \<^verbatim>\<open>30\<close>.
\<close>

theorem frame_rate_exact_quotient:
  assumes "run env (ffprobe_command video_path) = Inr result"
      and "json_loads env (stdout result) = Inr video_info"
      and "select_stream video_info = Inr (JObject vs)"
      and "map_of vs ''r_frame_rate'' = Some (JString ''30000/1001'')"
      and "get_video_properties env video_path = Inr r"
  shows "frame_rate r = Float (1054476685978981 / 2 ^ 45)
       \<and> int_truediv 30000 1001 = Inr (frame_rate r)
       \<and> \<bar>1054476685978981 / 2 ^ 45 - 30000 / 1001\<bar> < (1 / 2 ^ 49 :: rat)
       \<and> frame_rate r \<noteq> Float (2997 / 100)
       \<and> frame_rate r \<noteq> Float 30"
proof -
  have "derive_frame_rate (JObject vs) = Inr (frame_rate r)"
    by (rule stream_fields(1) [OF assms(1-3) assms(5)])
  moreover have "derive_frame_rate (JObject vs) = int_truediv 30000 1001"
    using assms(4)
    by (simp add: derive_frame_rate_def getitem_str_def split_method_def
          unpack_two_ints_def int_str_defs)
  ultimately have "frame_rate r = Float (1054476685978981 / 35184372088832)"
    by (simp add: int_truediv_30000_1001)
  then show ?thesis
    by (simp add: int_truediv_30000_1001)
qed

theorem frame_rate_exact_quotient_witness:
  "map_of sample_stream ''r_frame_rate'' = Some (JString ''30000/1001'')
   \<and> frame_rate sample_properties = Float (1054476685978981 / 2 ^ 45)
   \<and> int_truediv 30000 1001 = Inr (frame_rate sample_properties)"
proof -
  have f: "map_of sample_stream ''r_frame_rate'' = Some (JString ''30000/1001'')"
    by (simp add: sample_stream_def)
  from frame_rate_exact_quotient [OF canned_run canned_loads sample_select f
         sample_run [of 0 "[]" "''clip.mp4''"]] f
  show ?thesis by simp
qed

text \<open>
  C9. For every probe output whose selected stream has no \<^verbatim>\<open>tags\<close> block, or has a
  \<^verbatim>\<open>tags\<close> dict with no \<^verbatim>\<open>gop_size\<close> entry, the GOP step raises nothing and yields
  (0, 0), and every record that is returned has \<^verbatim>\<open>gop_m = 0\<close> and \<^verbatim>\<open>gop_n = 0\<close>.
\<close>

theorem gop_defaults_to_zero:
  assumes "run env (ffprobe_command video_path) = Inr result"
      and "json_loads env (stdout result) = Inr video_info"
      and "select_stream video_info = Inr (JObject vs)"
      and "map_of vs ''tags'' = None
           \<or> (\<exists>tags. map_of vs ''tags'' = Some (JObject tags) \<and> map_of tags ''gop_size'' = None)"
  shows "extract_gop vs = Inr (0, 0)
       \<and> (\<forall>r. get_video_properties env video_path = Inr r \<longrightarrow> gop_m r = 0 \<and> gop_n r = 0)"
proof -
  from assms(4) have g: "extract_gop vs = Inr (0, 0)"
    by (auto simp: extract_gop_def contains_str_def)
  have "gop_m r = 0 \<and> gop_n r = 0" if "get_video_properties env video_path = Inr r" for r
    using stream_fields(2) [OF assms(1-3) that] g by simp
  with g show ?thesis by simp
qed

theorem gop_defaults_to_zero_witness:
  "map_of sample_stream ''tags'' = Some (JObject [(''language'', JString ''eng'')])
   \<and> extract_gop sample_stream = Inr (0, 0)
   \<and> gop_m sample_properties = 0 \<and> gop_n sample_properties = 0"
proof -
  have f: "map_of sample_stream ''tags'' = Some (JObject [(''language'', JString ''eng'')])"
    by (simp add: sample_stream_def)
  then have h: "map_of sample_stream ''tags'' = None
      \<or> (\<exists>tags. map_of sample_stream ''tags'' = Some (JObject tags)
             \<and> map_of tags ''gop_size'' = None)"
    by simp
  from gop_defaults_to_zero [OF canned_run canned_loads sample_select h]
       sample_run [of 0 "[]" "''clip.mp4''"] f
  show ?thesis by simp
qed

text \<open>
  C10. In every record the extractor returns, a scan order of \<^verbatim>\<open>TFF\<close> or \<^verbatim>\<open>BFF\<close>
  comes with the scan type \<^verbatim>\<open>interlaced\<close>; equivalently, a record of scan type
  \<^verbatim>\<open>progressive\<close> has neither of the two scan orders.
\<close>

theorem field_first_implies_interlaced:
  assumes "get_video_properties env video_path = Inr r"
  shows "(scan_order r = ''TFF'' \<or> scan_order r = ''BFF'' \<longrightarrow> scan_type r = ''interlaced'')
       \<and> (scan_type r = ''progressive'' \<longrightarrow> scan_order r \<noteq> ''TFF'' \<and> scan_order r \<noteq> ''BFF'')"
proof -
  from get_video_properties_Inr [OF assms] obtain vs fr dar gop where
    "assemble vs fr dar gop = Inr r"
    by (elim exE conjE)
  note f = assemble_fields [OF this]
  show ?thesis
    by (simp add: f(3) f(4) derive_scan_order_def derive_scan_type_def dict_get_def
          split: option.splits)
qed

theorem field_first_implies_interlaced_witness:
  "scan_order sample_properties = ''TFF'' \<and> scan_type sample_properties = ''interlaced''"
proof -
  have "scan_order sample_properties = ''TFF''"
    by (simp add: sample_properties_def)
  with field_first_implies_interlaced [OF sample_run [of 0 "[]" "''clip.mp4''"]]
  show ?thesis by simp
qed

section \<open>Claims about the format converter\<close>

text \<open>
  C6. For every conversion request, the built command contains the two adjacent arguments
  \<^verbatim>\<open>-pix_fmt nv12\<close> if and only if the requested video codec is exactly the default
  hardware encoder \<^verbatim>\<open>h264_videotoolbox\<close>; with any other video codec the command does
  not contain them, whatever the paths and the other options are.
\<close>

theorem pix_fmt_iff_default_codec:
  "sublist [''-pix_fmt'', ''nv12'']
     (build_command input_video_path output_video_path video_codec resolution bitrate audio_codec)
   \<longleftrightarrow> video_codec = default_video_codec"
  by (simp add: build_command_def default_video_codec_def sublist_Cons_right prefix_Cons)

text \<open>
  C3, as the code has it. For every conversion request: if \<^verbatim>\<open>subprocess.run\<close> returns a
  completed process, no error is raised to the caller, and a non-zero exit status is
  turned into a \<^verbatim>\<open>RuntimeError\<close> that carries the captured standard error text (the
  specification's ConversionError), caught at the boundary of the conversion operation and
  reported as one printed message. If \<^verbatim>\<open>subprocess.run\<close> itself raises, the exception is
  caught and reported as a message only when it is a \<^verbatim>\<open>RuntimeError\<close> or a
  \<^verbatim>\<open>CalledProcessError\<close>; every other exception is raised to the caller and nothing is
  printed. \<^verbatim>\<open>FileNotFoundError\<close> and \<^verbatim>\<open>PermissionError\<close>, raised when the executable
  cannot be started, and \<^verbatim>\<open>UnicodeDecodeError\<close>, raised when the captured output cannot
  be decoded, are among the others.
\<close>

theorem conversion_outcome:
  "(\<forall>result.
      run env (build_command input_video_path output_video_path
                 video_codec resolution bitrate audio_codec) = Inr result \<longrightarrow>
      raised (convert_video_to_requirements env input_video_path output_video_path
                video_codec resolution bitrate audio_codec) = None
      \<and> (returncode result \<noteq> 0 \<longrightarrow>
           attempt_conversion env
             (build_command input_video_path output_video_path
                video_codec resolution bitrate audio_codec)
             = Inl (RuntimeError (''ffmpeg conversion failed: '' @ stderr result))
         \<and> printed (convert_video_to_requirements env input_video_path output_video_path
                       video_codec resolution bitrate audio_codec)
             = [''Error during conversion: ffmpeg conversion failed: '' @ stderr result]))
   \<and> (\<forall>e.
        run env (build_command input_video_path output_video_path
                   video_codec resolution bitrate audio_codec) = Inl e \<longrightarrow>
        convert_video_to_requirements env input_video_path output_video_path
          video_codec resolution bitrate audio_codec
        = (if caught e
           then \<lparr> printed = [''Error during conversion: '' @ str_of_error e], raised = None \<rparr>
           else \<lparr> printed = [], raised = Some e \<rparr>))
   \<and> (\<forall>e. caught e \<longleftrightarrow>
          (\<exists>msg. e = RuntimeError msg \<or> e = RecursionError msg \<or> e = CalledProcessError msg))
   \<and> \<not> caught FileNotFoundError \<and> \<not> caught PermissionError \<and> \<not> caught UnicodeDecodeError"
proof (intro conjI allI impI)
  fix e
  show "caught e \<longleftrightarrow>
          (\<exists>msg. e = RuntimeError msg \<or> e = RecursionError msg \<or> e = CalledProcessError msg)"
    by (cases e) simp_all
qed (simp_all add: convert_video_to_requirements_def attempt_conversion_def)

theorem conversion_outcome_witness:
  "convert_video_to_requirements (canned_env 1 [] ''Unknown encoder'' JNull)
     ''clip.mp4'' ''output.mxf''
     default_video_codec default_resolution default_bitrate default_audio_codec
   = \<lparr> printed = [''Error during conversion: ffmpeg conversion failed: Unknown encoder''],
       raised = None \<rparr>
   \<and> convert_video_to_requirements undecodable_output_env
       ''clip.mp4'' ''output.mxf''
       default_video_codec default_resolution default_bitrate default_audio_codec
   = \<lparr> printed = [], raised = Some UnicodeDecodeError \<rparr>"
proof -
  have u: "run undecodable_output_env
             (build_command ''clip.mp4'' ''output.mxf''
                default_video_codec default_resolution default_bitrate default_audio_codec)
           = Inl UnicodeDecodeError"
    by (simp add: undecodable_output_env_def)
  have c: "run (canned_env 1 [] ''Unknown encoder'' JNull)
             (build_command ''clip.mp4'' ''output.mxf''
                default_video_codec default_resolution default_bitrate default_audio_codec)
           = Inr \<lparr> returncode = 1, stdout = [], stderr = ''Unknown encoder'' \<rparr>"
    by (rule canned_run)
  from conversion_outcome [of "canned_env 1 [] ''Unknown encoder'' JNull"
         "''clip.mp4''" "''output.mxf''"
         default_video_codec default_resolution default_bitrate default_audio_codec] c
  have "convert_video_to_requirements (canned_env 1 [] ''Unknown encoder'' JNull)
          ''clip.mp4'' ''output.mxf''
          default_video_codec default_resolution default_bitrate default_audio_codec
        = \<lparr> printed = [''Error during conversion: ffmpeg conversion failed: Unknown encoder''],
            raised = None \<rparr>"
    by (cases "convert_video_to_requirements (canned_env 1 [] ''Unknown encoder'' JNull)
                 ''clip.mp4'' ''output.mxf''
                 default_video_codec default_resolution default_bitrate default_audio_codec")
       simp
  moreover
  from conversion_outcome [of undecodable_output_env
         "''clip.mp4''" "''output.mxf''"
         default_video_codec default_resolution default_bitrate default_audio_codec] u
  have "convert_video_to_requirements undecodable_output_env
          ''clip.mp4'' ''output.mxf''
          default_video_codec default_resolution default_bitrate default_audio_codec
        = \<lparr> printed = [], raised = Some UnicodeDecodeError \<rparr>"
    by simp
  ultimately show ?thesis by simp
qed

text \<open>
  C3, as the specification states it, fails: when the executable cannot be started,
  \<^verbatim>\<open>subprocess.run\<close> raises \<^verbatim>\<open>FileNotFoundError\<close>, which the \<^verbatim>\<open>except\<close> clause does not
  name; nothing is printed and the exception reaches the caller.
\<close>

theorem spawn_failure_reaches_caller:
  "run missing_executable_env
     (build_command ''clip.mp4'' ''output.mxf''
        default_video_codec default_resolution default_bitrate default_audio_codec)
   = Inl FileNotFoundError
   \<and> convert_video_to_requirements missing_executable_env ''clip.mp4'' ''output.mxf''
       default_video_codec default_resolution default_bitrate default_audio_codec
   = \<lparr> printed = [], raised = Some FileNotFoundError \<rparr>"
  by (simp add: convert_video_to_requirements_def attempt_conversion_def
        missing_executable_env_def)

text \<open>
  C5. For every conversion whose process ends with exit status 1 and whose standard
  error is \<^verbatim>\<open>invalid codec\<close>, the body of the \<^verbatim>\<open>try\<close> raises a \<^verbatim>\<open>RuntimeError\<close>
  (the specification's ConversionError) whose message contains \<^verbatim>\<open>invalid codec\<close>, and
  the operation reports that message in the one line it prints.
\<close>

theorem invalid_codec_reported:
  assumes "run env (build_command input_video_path output_video_path
                      video_codec resolution bitrate audio_codec) = Inr result"
      and "returncode result = 1"
      and "stderr result = ''invalid codec''"
  shows "\<exists>msg. attempt_conversion env
                 (build_command input_video_path output_video_path
                    video_codec resolution bitrate audio_codec)
               = Inl (RuntimeError msg)
             \<and> sublist ''invalid codec'' msg
             \<and> convert_video_to_requirements env input_video_path output_video_path
                  video_codec resolution bitrate audio_codec
               = \<lparr> printed = [''Error during conversion: '' @ msg], raised = None \<rparr>"
proof (intro exI conjI)
  show "attempt_conversion env
          (build_command input_video_path output_video_path
             video_codec resolution bitrate audio_codec)
        = Inl (RuntimeError (''ffmpeg conversion failed: '' @ ''invalid codec''))"
    using assms by (simp add: attempt_conversion_def)
  then show "convert_video_to_requirements env input_video_path output_video_path
               video_codec resolution bitrate audio_codec
             = \<lparr> printed = [''Error during conversion: '' @ (''ffmpeg conversion failed: '' @ ''invalid codec'')],
                 raised = None \<rparr>"
    by (simp add: convert_video_to_requirements_def)
  show "sublist ''invalid codec'' (''ffmpeg conversion failed: '' @ ''invalid codec'')"
    by (rule sublist_append_leftI)
qed

theorem invalid_codec_reported_witness:
  "convert_video_to_requirements (canned_env 1 [] ''invalid codec'' JNull)
     ''clip.mp4'' ''output.mxf''
     default_video_codec default_resolution default_bitrate default_audio_codec
   = \<lparr> printed = [''Error during conversion: ffmpeg conversion failed: invalid codec''],
       raised = None \<rparr>"
proof -
  have rc: "returncode \<lparr> returncode = 1, stdout = [], stderr = ''invalid codec'' \<rparr> = 1"
    by simp
  have err: "stderr \<lparr> returncode = 1, stdout = [], stderr = ''invalid codec'' \<rparr> = ''invalid codec''"
    by simp
  from invalid_codec_reported [OF canned_run rc err, of JNull
         "''clip.mp4''" "''output.mxf''"
         default_video_codec default_resolution default_bitrate default_audio_codec]
  obtain msg where
    a: "attempt_conversion (canned_env 1 [] ''invalid codec'' JNull)
          (build_command ''clip.mp4'' ''output.mxf''
             default_video_codec default_resolution default_bitrate default_audio_codec)
        = Inl (RuntimeError msg)" and
    c: "convert_video_to_requirements (canned_env 1 [] ''invalid codec'' JNull)
          ''clip.mp4'' ''output.mxf''
          default_video_codec default_resolution default_bitrate default_audio_codec
        = \<lparr> printed = [''Error during conversion: '' @ msg], raised = None \<rparr>"
    by (elim exE conjE)
  from a have "msg = ''ffmpeg conversion failed: invalid codec''"
    by (simp add: attempt_conversion_def canned_env_def)
  with c show ?thesis by simp
qed

end
